theory Spec2Isabelle
  imports Main "HOL-Library.Word" "HOL-Library.Sublist"
begin

section \<open>Failures\<close>

text \<open>
  The code under study fails in two ways. It throws exceptions (\<open>RuntimeError\<close>,
  \<open>LogicError\<close>, \<open>FileParseError\<close>), all of them subclasses of \<open>Exception\<close>, and it
  states preconditions with \<open>Q_ASSERT\<close>, which aborts the program when the condition is
  false (in a build with assertions enabled; with \<open>QT_NO_DEBUG\<close> the macro expands to
  nothing, and the model does not describe such a build). Both are results of the
  model: a function that can fail returns \<open>exception + 'a\<close>, with \<open>Inl\<close> for the
  failure. The failed assertion is the result \<open>PreconditionViolation\<close>, the name the
  specification gives to a call that the shape of the object does not allow.

  The exception classes are declared in exceptions.h, which is not among the sources;
  the model keeps what the code under study passes to their constructors and reads
  back with \<open>getMsg()\<close>. Of the constructor arguments only those that depend on the
  data are kept: the message of a \<open>RuntimeError\<close>, and the invalid file content and the message
  of a \<open>FileParseError\<close>. The source position (\<open>__FILE__\<close>, \<open>__LINE__\<close>), the path of
  the document (\<open>getDocFilePath()\<close>) and the line and column (always \<open>-1\<close>) are
  diagnostic only and are left out. \<open>tr(...)\<close> is taken as the identity.
\<close>

datatype exception =
    RuntimeError string
  | LogicError
  | FileParseError string string
  | PreconditionViolation

text \<open>\<open>Exception::getMsg()\<close>: the message the exception was constructed with.\<close>

fun getMsg :: "exception \<Rightarrow> string" where
  "getMsg (RuntimeError msg) = msg"
| "getMsg LogicError = []"
| "getMsg (FileParseError invalidFileContent msg) = msg"
| "getMsg PreconditionViolation = []"

text \<open>
  What a \<open>catch (const Exception& e)\<close> clause catches: every exception, but not the
  abort of a failed \<open>Q_ASSERT\<close>.
\<close>

fun isException :: "exception \<Rightarrow> bool" where
  "isException PreconditionViolation = False"
| "isException e = True"

text \<open>A string between double quotes, as the messages of the code print it.\<close>

definition quoted :: "string \<Rightarrow> string" where
  "quoted s = CHR 0x22 # s @ [CHR 0x22]"

section \<open>The element of a DOM tree\<close>

text \<open>
  \<open>class DomElement\<close> (domelement.h): the tag name, the text, the ordered list of
  child elements and the attributes (a \<open>QMap\<close> from name to value). The children are
  owned by their parent, so the tree is a value. The back-references \<open>mParent\<close> and
  \<open>mDocument\<close> serve navigation and diagnostics only and are not part of the model.
  A \<open>QString\<close> is a \<open>string\<close>; \<open>isEmpty()\<close> is \<open>= []\<close> (a null \<open>QString\<close> is empty).
\<close>

datatype DomElement =
  DomElement (mName: string) (mText: string) (mChilds: "DomElement list")
    (mAttributes: "string \<rightharpoonup> string")

definition hasChilds :: "DomElement \<Rightarrow> bool" where
  "hasChilds e = (mChilds e \<noteq> [])"

subsection \<open>Serialization of values (\<open>objectToString\<close>)\<close>

definition objectToString_QString :: "string \<Rightarrow> string" where
  "objectToString_QString obj = obj"

definition objectToString_bool :: "bool \<Rightarrow> string" where
  "objectToString_bool obj = (if obj then ''true'' else ''false'')"

subsection \<open>Deserialization of values (\<open>stringToObject\<close>)\<close>

text \<open>
  \<open>stringToObject<QString>\<close>: the default value is unused and asserted to be the null
  string; an empty string is refused when \<open>throwIfEmpty\<close> is set.
\<close>

definition stringToObject_QString :: "string \<Rightarrow> bool \<Rightarrow> string \<Rightarrow> exception + string" where
  "stringToObject_QString str throwIfEmpty defaultValue =
     (if defaultValue \<noteq> [] then Inl PreconditionViolation
      else if str = [] \<and> throwIfEmpty then Inl (RuntimeError ''String is empty.'')
      else Inr str)"

definition stringToObject_bool :: "string \<Rightarrow> bool \<Rightarrow> bool \<Rightarrow> exception + bool" where
  "stringToObject_bool str throwIfEmpty defaultValue =
     (case stringToObject_QString str throwIfEmpty [] of
        Inl e \<Rightarrow> Inl e
      | Inr s \<Rightarrow>
          if s = ''true'' then Inr True
          else if s = ''false'' then Inr False
          else if s = [] then Inr defaultValue
          else Inl (RuntimeError ''Not a valid boolean.''))"

subsection \<open>Attributes\<close>

text \<open>
  The member templates \<open>setAttribute<T>\<close> and \<open>getAttribute<T>\<close> take the conversion of
  the type \<open>T\<close> as their first argument. \<open>getAttribute\<close> first looks the name up and
  throws when it is absent, whatever \<open>throwIfEmpty\<close> is; a failure of the conversion
  is caught and thrown again as a \<open>FileParseError\<close> that quotes the name, the value and
  the node.
\<close>

definition setAttribute :: "('a \<Rightarrow> string) \<Rightarrow> DomElement \<Rightarrow> string \<Rightarrow> 'a \<Rightarrow> DomElement" where
  "setAttribute objectToString e name v =
     DomElement (mName e) (mText e) (mChilds e) ((mAttributes e)(name \<mapsto> objectToString v))"

definition getAttribute ::
  "(string \<Rightarrow> bool \<Rightarrow> 'a \<Rightarrow> exception + 'a) \<Rightarrow> DomElement \<Rightarrow> string \<Rightarrow> bool \<Rightarrow> 'a \<Rightarrow> exception + 'a" where
  "getAttribute stringToObject e name throwIfEmpty defaultValue =
     (case mAttributes e name of
        None \<Rightarrow>
          Inl (FileParseError []
            (''Attribute '' @ quoted name @ '' not found in node '' @ quoted (mName e) @ ''.''))
      | Some v \<Rightarrow>
          (case stringToObject v throwIfEmpty defaultValue of
             Inr obj \<Rightarrow> Inr obj
           | Inl ex \<Rightarrow>
               if isException ex then
                 Inl (FileParseError []
                   (''Invalid attribute '' @ name @ ''='' @ quoted v @ '' in node '' @
                    quoted (mName e) @ '': '' @ getMsg ex))
               else Inl ex))"

subsection \<open>Text\<close>

text \<open>
  \<open>setText<T>\<close> asserts that the element has no children and stores the text of the
  value. \<open>getText<T>\<close> throws on an element with children; a failure of the conversion
  is caught and thrown again as a \<open>FileParseError\<close> that quotes the text and the node.
\<close>

definition setText :: "('a \<Rightarrow> string) \<Rightarrow> DomElement \<Rightarrow> 'a \<Rightarrow> exception + DomElement" where
  "setText objectToString e v =
     (if mChilds e \<noteq> [] then Inl PreconditionViolation
      else Inr (DomElement (mName e) (objectToString v) (mChilds e) (mAttributes e)))"

definition getText ::
  "(string \<Rightarrow> bool \<Rightarrow> 'a \<Rightarrow> exception + 'a) \<Rightarrow> DomElement \<Rightarrow> bool \<Rightarrow> 'a \<Rightarrow> exception + 'a" where
  "getText stringToObject e throwIfEmpty defaultValue =
     (if hasChilds e then
        Inl (FileParseError (mName e) ''A node with child elements cannot have a text.'')
      else
        (case stringToObject (mText e) throwIfEmpty defaultValue of
           Inr obj \<Rightarrow> Inr obj
         | Inl ex \<Rightarrow>
             if isException ex then
               Inl (FileParseError []
                 (''Text '' @ quoted (mText e) @ '' in node '' @ quoted (mName e) @
                  '' is invalid: '' @ getMsg ex))
             else Inl ex))"

subsection \<open>Children\<close>

text \<open>
  The constructor, \<open>appendChild\<close> and \<open>removeChild\<close> are declared in domelement.h and
  defined in domelement.cpp, which is not among the sources. They are modelled from
  the declarations, their doc comments and the specification (section 4.2).
\<close>

text \<open>
  Modelled from the spec: the constructor \<open>DomElement(name, text)\<close>, whose body is
  missing. The doc comment: "Constructor to create a new DOM element", with "the tag
  name of the element" and "the text if a text element should be created". The new
  element has no children and no attributes.
\<close>

definition DomElement_new :: "string \<Rightarrow> string \<Rightarrow> DomElement" where
  "DomElement_new name text = DomElement name text [] Map.empty"

text \<open>
  Modelled from the spec: \<open>appendChild(DomElement* child)\<close>, whose body is missing.
  The specification: "transfers ownership to this node, appends to the ordered child
  list; fails PreconditionViolation if this node currently has text".
\<close>

definition appendChild :: "DomElement \<Rightarrow> DomElement \<Rightarrow> exception + DomElement" where
  "appendChild e child =
     (if mText e \<noteq> [] then Inl PreconditionViolation
      else Inr (DomElement (mName e) (mText e) (mChilds e @ [child]) (mAttributes e)))"

text \<open>
  Modelled from the spec: \<open>appendChild(const QString& name)\<close>, whose body is missing.
  The doc comment: "Create and append the new child to the end of the child list of
  this element"; it returns "the created and appended child element". The result is
  the child and the element with it.
\<close>

definition appendChild_name :: "DomElement \<Rightarrow> string \<Rightarrow> exception + (DomElement \<times> DomElement)" where
  "appendChild_name e name =
     (let child = DomElement_new name [] in
      case appendChild e child of
        Inl ex \<Rightarrow> Inl ex
      | Inr e' \<Rightarrow> Inr (child, e'))"

text \<open>
  Modelled from the spec: \<open>removeChild(child, deleteChild)\<close>, whose body is missing.
  The doc comment: "Remove a child element from the DOM tree". A child is a pointer in
  the code; here it is named by its position in the list of children, and a position
  that is not in the list leaves the list as it is.
\<close>

definition removeChild :: "DomElement \<Rightarrow> nat \<Rightarrow> DomElement" where
  "removeChild e i =
     DomElement (mName e) (mText e) (take i (mChilds e) @ drop (Suc i) (mChilds e))
       (mAttributes e)"

text \<open>
  \<open>appendTextChild<T>\<close> (domelement.h): a new element with the text of the value is
  appended with \<open>appendChild\<close>; the result is the child and the element with it.
\<close>

definition appendTextChild ::
  "('a \<Rightarrow> string) \<Rightarrow> DomElement \<Rightarrow> string \<Rightarrow> 'a \<Rightarrow> exception + (DomElement \<times> DomElement)" where
  "appendTextChild objectToString e name v =
     (let child = DomElement_new name (objectToString v) in
      case appendChild e child of
        Inl ex \<Rightarrow> Inl ex
      | Inr e' \<Rightarrow> Inr (child, e'))"

text \<open>
  The invariant of the data model: text and children exclude each other, on the
  element and on every element below it.
\<close>

fun textXorChilds :: "DomElement \<Rightarrow> bool" where
  "textXorChilds (DomElement name text childs attributes) =
     ((childs = [] \<or> text = []) \<and> (\<forall>c \<in> set childs. textXorChilds c))"

section \<open>Integers\<close>

text \<open>
  An \<open>int\<close> of the code is a word of 32 bits read as a signed number (\<open>sint\<close>).
  \<open>QString::number(int)\<close> and \<open>QString::toInt\<close> belong to Qt, not to the repository;
  they are modelled after Qt's documentation, in base 10: \<open>number\<close> prints the decimal
  digits without leading zeros, after a minus sign for a negative number; \<open>toInt\<close>
  skips white space at both ends, accepts one sign and then one or more decimal
  digits, and refuses (\<open>ok = false\<close>, here \<open>None\<close>) everything else and every number
  outside the range of \<open>int\<close>.
\<close>

definition digit_char :: "nat \<Rightarrow> char" where
  "digit_char n = ''0123456789'' ! (n mod 10)"

definition digit_val :: "char \<Rightarrow> nat option" where
  "digit_val c = map_of (zip ''0123456789'' [0, 1, 2, 3, 4, 5, 6, 7, 8, 9]) c"

fun decimal :: "nat \<Rightarrow> string" where
  "decimal n = (if n < 10 then [digit_char n] else decimal (n div 10) @ [digit_char (n mod 10)])"

declare decimal.simps [simp del]

definition QString_number :: "int \<Rightarrow> string" where
  "QString_number n = (if n < 0 then CHR ''-'' # decimal (nat (- n)) else decimal (nat n))"

fun digits_value :: "nat \<Rightarrow> string \<Rightarrow> nat option" where
  "digits_value acc [] = Some acc"
| "digits_value acc (c # cs) =
     (case digit_val c of None \<Rightarrow> None | Some d \<Rightarrow> digits_value (10 * acc + d) cs)"

definition parse_decimal :: "string \<Rightarrow> nat option" where
  "parse_decimal s = (if s = [] then None else digits_value 0 s)"

definition isSpace :: "char \<Rightarrow> bool" where
  "isSpace c = (c \<in> set [CHR '' '', CHR 0x09, CHR 0x0A, CHR 0x0B, CHR 0x0C, CHR 0x0D])"

definition trimmed :: "string \<Rightarrow> string" where
  "trimmed s = rev (dropWhile isSpace (rev (dropWhile isSpace s)))"

definition QString_toInt :: "string \<Rightarrow> 32 word option" where
  "QString_toInt s =
     (let t = trimmed s;
          negative = (t \<noteq> [] \<and> hd t = CHR ''-'');
          digits = (if t \<noteq> [] \<and> (hd t = CHR ''-'' \<or> hd t = CHR ''+'') then tl t else t)
      in case parse_decimal digits of
           None \<Rightarrow> None
         | Some m \<Rightarrow>
             (let v = (if negative then - int m else int m)
              in if - (2 ^ 31) \<le> v \<and> v < 2 ^ 31 then Some (word_of_int v) else None))"

definition objectToString_int :: "32 word \<Rightarrow> string" where
  "objectToString_int obj = QString_number (sint obj)"

definition stringToObject_int :: "string \<Rightarrow> bool \<Rightarrow> 32 word \<Rightarrow> exception + 32 word" where
  "stringToObject_int str throwIfEmpty defaultValue =
     (case stringToObject_QString str throwIfEmpty [] of
        Inl e \<Rightarrow> Inl e
      | Inr s \<Rightarrow>
          (case QString_toInt s of
             Some v \<Rightarrow> Inr v
           | None \<Rightarrow>
               if s = [] then Inr defaultValue
               else Inl (RuntimeError ''Not a valid integer.'')))"

section \<open>Date and time\<close>

text \<open>
  \<open>QDateTime\<close> belongs to Qt, not to the repository; the model keeps what the two
  conversions of domelement.h depend on, after Qt's documentation. A date-time is a
  point in time with a precision of one millisecond, and two date-times are equal
  (\<open>operator==\<close>) when they are the same point in time, whatever their time zone. The
  model names the point by its calendar fields in UTC, so \<open>toUTC()\<close> and
  \<open>toLocalTime()\<close>, which change the time zone of the representation and not the
  point, are the identity. A date-time is valid when its date exists in the
  proleptic Gregorian calendar (which has no year 0) and its time exists.

  \<open>toString(Qt::ISODate)\<close> of a date-time in UTC is \<open>yyyy-MM-ddTHH:mm:ssZ\<close>: the
  format has no field for the milliseconds (that is \<open>Qt::ISODateWithMs\<close>), and the
  text is empty for an invalid date-time and for a year outside \<open>0 .. 9999\<close>.
  \<open>fromString(s, Qt::ISODate)\<close> is modelled on the texts of exactly this form, which
  are the ones \<open>toString\<close> writes; Qt reads further ISO 8601 variants (a time zone
  offset, a fraction of a second, a date alone), on which the model answers with the
  invalid date-time and on which nothing below depends.
\<close>

record QDateTime =
  year :: int
  month :: nat
  day :: nat
  hour :: nat
  minute :: nat
  second :: nat
  msec :: nat

definition QDateTime_null :: QDateTime where
  "QDateTime_null =
     \<lparr>year = 0, month = 0, day = 0, hour = 0, minute = 0, second = 0, msec = 0\<rparr>"

definition isLeapYear :: "int \<Rightarrow> bool" where
  "isLeapYear y =
     (let y' = (if y < 1 then y + 1 else y)
      in (y' mod 4 = 0 \<and> y' mod 100 \<noteq> 0) \<or> y' mod 400 = 0)"

definition daysInMonth :: "int \<Rightarrow> nat \<Rightarrow> nat" where
  "daysInMonth y m =
     (if m = 2 then (if isLeapYear y then 29 else 28)
      else if m = 4 \<or> m = 6 \<or> m = 9 \<or> m = 11 then 30
      else 31)"

definition isValid :: "QDateTime \<Rightarrow> bool" where
  "isValid d =
     (year d \<noteq> 0 \<and> 1 \<le> month d \<and> month d \<le> 12 \<and>
      1 \<le> day d \<and> day d \<le> daysInMonth (year d) (month d) \<and>
      hour d < 24 \<and> minute d < 60 \<and> second d < 60 \<and> msec d < 1000)"

definition toUTC :: "QDateTime \<Rightarrow> QDateTime" where
  "toUTC d = d"

definition toLocalTime :: "QDateTime \<Rightarrow> QDateTime" where
  "toLocalTime d = d"

text \<open>\<open>pad k n\<close> is \<open>n\<close> printed with \<open>%0kd\<close>: at least \<open>k\<close> digits, zeros in front.\<close>

definition pad :: "nat \<Rightarrow> nat \<Rightarrow> string" where
  "pad k n = replicate (k - length (decimal n)) (CHR ''0'') @ decimal n"

definition toString_ISODate :: "QDateTime \<Rightarrow> string" where
  "toString_ISODate d =
     (if \<not> isValid d \<or> year d < 0 \<or> 9999 < year d then []
      else pad 4 (nat (year d)) @ ''-'' @ pad 2 (month d) @ ''-'' @ pad 2 (day d) @ ''T'' @
           pad 2 (hour d) @ '':'' @ pad 2 (minute d) @ '':'' @ pad 2 (second d) @ ''Z'')"

definition fromString_ISODate :: "string \<Rightarrow> QDateTime" where
  "fromString_ISODate s =
     (if length s = 20 \<and> s ! 4 = CHR ''-'' \<and> s ! 7 = CHR ''-'' \<and> s ! 10 = CHR ''T'' \<and>
         s ! 13 = CHR '':'' \<and> s ! 16 = CHR '':'' \<and> s ! 19 = CHR ''Z''
      then
        (case (parse_decimal (take 4 s), parse_decimal (take 2 (drop 5 s)),
               parse_decimal (take 2 (drop 8 s)), parse_decimal (take 2 (drop 11 s)),
               parse_decimal (take 2 (drop 14 s)), parse_decimal (take 2 (drop 17 s))) of
           (Some yy, Some mm, Some dd, Some hh, Some nn, Some ss) \<Rightarrow>
             (let r = \<lparr>year = int yy, month = mm, day = dd, hour = hh, minute = nn,
                       second = ss, msec = 0\<rparr>
              in if isValid r then r else QDateTime_null)
         | _ \<Rightarrow> QDateTime_null)
      else QDateTime_null)"

definition objectToString_QDateTime :: "QDateTime \<Rightarrow> string" where
  "objectToString_QDateTime obj = toString_ISODate (toUTC obj)"

definition stringToObject_QDateTime ::
  "string \<Rightarrow> bool \<Rightarrow> QDateTime \<Rightarrow> exception + QDateTime" where
  "stringToObject_QDateTime str throwIfEmpty defaultValue =
     (case stringToObject_QString str throwIfEmpty [] of
        Inl e \<Rightarrow> Inl e
      | Inr s \<Rightarrow>
          (let obj = toLocalTime (fromString_ISODate s)
           in if isValid obj then Inr obj
              else if s = [] then Inr defaultValue
              else Inl (RuntimeError ''Not a valid datetime.'')))"

section \<open>Types with their own conversion\<close>

text \<open>
  Every other type \<open>T\<close> brings the conversion itself: a method \<open>serializeToString()\<close>
  and a static method \<open>T::deserializeFromString(str)\<close>, which can throw. \<open>Uuid\<close> and
  \<open>SignalRole\<close> are such types; their classes are not among the sources, so the two
  methods, and the default-constructed value \<open>T()\<close>, are parameters of the model. The
  general templates of domelement.h call them.
\<close>

record 'a SerializableClass =
  defaultConstructed :: 'a
  serializeToString :: "'a \<Rightarrow> string"
  deserializeFromString :: "string \<Rightarrow> exception + 'a"

definition objectToString_T :: "'a SerializableClass \<Rightarrow> 'a \<Rightarrow> string" where
  "objectToString_T T obj = serializeToString T obj"

definition stringToObject_T ::
  "'a SerializableClass \<Rightarrow> string \<Rightarrow> bool \<Rightarrow> 'a \<Rightarrow> exception + 'a" where
  "stringToObject_T T str throwIfEmpty defaultValue =
     (case stringToObject_QString str throwIfEmpty [] of
        Inl e \<Rightarrow> Inl e
      | Inr s \<Rightarrow>
          (case deserializeFromString T str of
             Inr obj \<Rightarrow> Inr obj
           | Inl ex \<Rightarrow>
               if isException ex \<and> str = [] then Inr defaultValue else Inl ex))"

section \<open>The signal of a component\<close>

text \<open>
  \<open>class ComponentSignal\<close> (componentsignal.cpp). The types of the UUID and of the role
  are type parameters; \<open>Uuid::isNull\<close> is a parameter of the functions that call it,
  and \<open>==\<close> on both types is equality.
\<close>

record ('uuid, 'role) ComponentSignal =
  mUuid :: 'uuid
  mName_signal :: string
  mRole :: 'role
  mForcedNetName :: string
  mIsRequired :: bool
  mIsNegated :: bool
  mIsClock :: bool

text \<open>The Qt signals a setter emits, in the order of emission.\<close>

datatype 'role emitted =
    nameChanged string
  | roleChanged 'role
  | forcedNetNameChanged string
  | isRequiredChanged bool
  | isNegatedChanged bool
  | isClockChanged bool
  | edited

definition setName ::
  "string \<Rightarrow> ('uuid, 'role) ComponentSignal \<Rightarrow> ('uuid, 'role) ComponentSignal \<times> 'role emitted list" where
  "setName name s =
     (if name = mName_signal s then (s, [])
      else (s\<lparr>mName_signal := name\<rparr>, [nameChanged name, edited]))"

definition setRole ::
  "'role \<Rightarrow> ('uuid, 'role) ComponentSignal \<Rightarrow> ('uuid, 'role) ComponentSignal \<times> 'role emitted list" where
  "setRole role s =
     (if role = mRole s then (s, [])
      else (s\<lparr>mRole := role\<rparr>, [roleChanged role, edited]))"

definition setForcedNetName ::
  "string \<Rightarrow> ('uuid, 'role) ComponentSignal \<Rightarrow> ('uuid, 'role) ComponentSignal \<times> 'role emitted list" where
  "setForcedNetName name s =
     (if name = mForcedNetName s then (s, [])
      else (s\<lparr>mForcedNetName := name\<rparr>, [forcedNetNameChanged name, edited]))"

definition setIsRequired ::
  "bool \<Rightarrow> ('uuid, 'role) ComponentSignal \<Rightarrow> ('uuid, 'role) ComponentSignal \<times> 'role emitted list" where
  "setIsRequired required s =
     (if required = mIsRequired s then (s, [])
      else (s\<lparr>mIsRequired := required\<rparr>, [isRequiredChanged required, edited]))"

definition setIsNegated ::
  "bool \<Rightarrow> ('uuid, 'role) ComponentSignal \<Rightarrow> ('uuid, 'role) ComponentSignal \<times> 'role emitted list" where
  "setIsNegated negated s =
     (if negated = mIsNegated s then (s, [])
      else (s\<lparr>mIsNegated := negated\<rparr>, [isNegatedChanged negated, edited]))"

definition setIsClock ::
  "bool \<Rightarrow> ('uuid, 'role) ComponentSignal \<Rightarrow> ('uuid, 'role) ComponentSignal \<times> 'role emitted list" where
  "setIsClock clock s =
     (if clock = mIsClock s then (s, [])
      else (s\<lparr>mIsClock := clock\<rparr>, [isClockChanged clock, edited]))"

definition checkAttributesValidity ::
  "('uuid \<Rightarrow> bool) \<Rightarrow> ('uuid, 'role) ComponentSignal \<Rightarrow> bool" where
  "checkAttributesValidity isNull s =
     (if isNull (mUuid s) then False
      else if mName_signal s = [] then False
      else True)"

definition serialize ::
  "'uuid SerializableClass \<Rightarrow> 'role SerializableClass \<Rightarrow> ('uuid \<Rightarrow> bool) \<Rightarrow>
   ('uuid, 'role) ComponentSignal \<Rightarrow> DomElement \<Rightarrow> exception + DomElement" where
  "serialize U R isNull s root =
     (if \<not> checkAttributesValidity isNull s then Inl LogicError
      else
        (let root1 = setAttribute (objectToString_T U) root ''uuid'' (mUuid s);
             root2 = setAttribute (objectToString_T R) root1 ''role'' (mRole s);
             root3 = setAttribute objectToString_QString root2 ''forced_net_name''
                       (mForcedNetName s);
             root4 = setAttribute objectToString_bool root3 ''required'' (mIsRequired s);
             root5 = setAttribute objectToString_bool root4 ''negated'' (mIsNegated s);
             root6 = setAttribute objectToString_bool root5 ''clock'' (mIsClock s)
         in setText objectToString_QString root6 (mName_signal s)))"

text \<open>
  The constructor \<open>ComponentSignal(const DomElement&)\<close>: the members are read one after
  the other, the first failure ends the construction.
\<close>

definition ComponentSignal_fromDomElement ::
  "'uuid SerializableClass \<Rightarrow> 'role SerializableClass \<Rightarrow> ('uuid \<Rightarrow> bool) \<Rightarrow>
   DomElement \<Rightarrow> exception + ('uuid, 'role) ComponentSignal" where
  "ComponentSignal_fromDomElement U R isNull domElement =
     (case getAttribute (stringToObject_T U) domElement ''uuid'' True (defaultConstructed U) of
        Inl e \<Rightarrow> Inl e
      | Inr uuid \<Rightarrow>
     (case getText stringToObject_QString domElement True [] of
        Inl e \<Rightarrow> Inl e
      | Inr name \<Rightarrow>
     (case getAttribute (stringToObject_T R) domElement ''role'' True (defaultConstructed R) of
        Inl e \<Rightarrow> Inl e
      | Inr role \<Rightarrow>
     (case getAttribute stringToObject_QString domElement ''forced_net_name'' False [] of
        Inl e \<Rightarrow> Inl e
      | Inr forcedNetName \<Rightarrow>
     (case getAttribute stringToObject_bool domElement ''required'' True False of
        Inl e \<Rightarrow> Inl e
      | Inr required \<Rightarrow>
     (case getAttribute stringToObject_bool domElement ''negated'' True False of
        Inl e \<Rightarrow> Inl e
      | Inr negated \<Rightarrow>
     (case getAttribute stringToObject_bool domElement ''clock'' True False of
        Inl e \<Rightarrow> Inl e
      | Inr clock \<Rightarrow>
          (let s = \<lparr>mUuid = uuid, mName_signal = name, mRole = role,
                    mForcedNetName = forcedNetName, mIsRequired = required,
                    mIsNegated = negated, mIsClock = clock\<rparr>
           in if \<not> checkAttributesValidity isNull s then Inl LogicError
              else Inr s))))))))"

text \<open>\<open>ComponentSignal::operator==\<close>.\<close>

definition ComponentSignal_eq ::
  "('uuid, 'role) ComponentSignal \<Rightarrow> ('uuid, 'role) ComponentSignal \<Rightarrow> bool" where
  "ComponentSignal_eq lhs rhs =
     (if mUuid lhs \<noteq> mUuid rhs then False
      else if mName_signal lhs \<noteq> mName_signal rhs then False
      else if mRole lhs \<noteq> mRole rhs then False
      else if mForcedNetName lhs \<noteq> mForcedNetName rhs then False
      else if mIsRequired lhs \<noteq> mIsRequired rhs then False
      else if mIsNegated lhs \<noteq> mIsNegated rhs then False
      else if mIsClock lhs \<noteq> mIsClock rhs then False
      else True)"

section \<open>The metadata of a project\<close>

text \<open>
  \<open>class ProjectMetadata\<close> (projectmetadata.cpp): the members that hold data. The class
  \<open>AttributeList\<close> is not among the sources; what is used of it is its equality and
  its empty, default-constructed value, and it is a list of keys with their values.
\<close>

type_synonym AttributeList = "(string \<times> string) list"

record ProjectMetadata =
  mName_meta :: string
  mAuthor :: string
  mVersion :: string
  mCreated :: QDateTime
  mLastModified :: QDateTime
  mAttributes_meta :: AttributeList

text \<open>\<open>ProjectMetadata::setLastModified\<close>: the body is empty.\<close>

definition setLastModified :: "ProjectMetadata \<Rightarrow> QDateTime \<Rightarrow> ProjectMetadata" where
  "setLastModified m newLastModified = m"

section \<open>The command that edits the metadata of a project\<close>

text \<open>
  The base class \<open>UndoCommand\<close> (undocommand.h, undocommand.cpp) is not among the
  sources. It is modelled from the specification (sections 3 and 4.4). The subclass
  gives \<open>performExecute\<close>, \<open>performUndo\<close> and \<open>performRedo\<close>; here they get the object
  the command works on and the command, and return both.
\<close>

text \<open>
  Modelled from the spec: the members of \<open>UndoCommand\<close>, which is missing. A command
  "carries an executed flag and an undone flag". Its states are Idle (not executed),
  Executed (executed and not undone) and Undone (executed and undone).
\<close>

record UndoCommand =
  mIsExecuted :: bool
  mIsUndone :: bool

text \<open>
  Modelled from the spec: \<open>UndoCommand::execute()\<close>, which is missing. It "captures
  prior field values, performs the mutation, returns whether the end state differs
  from the captured prior state; a failed underlying mutation propagates its error and
  the command is NOT marked executed". The state machine has \<open>execute\<close> from Idle only;
  on a command that was executed it is a \<open>PreconditionViolation\<close> here.
\<close>

definition execute ::
  "('p \<Rightarrow> 'z UndoCommand_scheme \<Rightarrow> exception + (bool \<times> 'p \<times> 'z UndoCommand_scheme)) \<Rightarrow>
   'p \<Rightarrow> 'z UndoCommand_scheme \<Rightarrow> exception + (bool \<times> 'p \<times> 'z UndoCommand_scheme)" where
  "execute performExecute p c =
     (if mIsExecuted c then Inl PreconditionViolation
      else
        (case performExecute p c of
           Inl e \<Rightarrow> Inl e
         | Inr (changed, p', c') \<Rightarrow> Inr (changed, p', c'\<lparr>mIsExecuted := True\<rparr>)))"

text \<open>
  Modelled from the spec: \<open>UndoCommand::undo()\<close>, which is missing. It "fails
  PreconditionViolation unless currently Executed; restores exactly the captured prior
  values; transitions to Undone".
\<close>

definition undo ::
  "('p \<Rightarrow> 'z UndoCommand_scheme \<Rightarrow> exception + ('p \<times> 'z UndoCommand_scheme)) \<Rightarrow>
   'p \<Rightarrow> 'z UndoCommand_scheme \<Rightarrow> exception + ('p \<times> 'z UndoCommand_scheme)" where
  "undo performUndo p c =
     (if \<not> (mIsExecuted c \<and> \<not> mIsUndone c) then Inl PreconditionViolation
      else
        (case performUndo p c of
           Inl e \<Rightarrow> Inl e
         | Inr (p', c') \<Rightarrow> Inr (p', c'\<lparr>mIsUndone := True\<rparr>)))"

text \<open>
  Modelled from the spec: \<open>UndoCommand::redo()\<close>, which is missing. It "fails
  PreconditionViolation unless currently Undone" and leads back to Executed.
\<close>

definition redo ::
  "('p \<Rightarrow> 'z UndoCommand_scheme \<Rightarrow> exception + ('p \<times> 'z UndoCommand_scheme)) \<Rightarrow>
   'p \<Rightarrow> 'z UndoCommand_scheme \<Rightarrow> exception + ('p \<times> 'z UndoCommand_scheme)" where
  "redo performRedo p c =
     (if \<not> (mIsExecuted c \<and> mIsUndone c) then Inl PreconditionViolation
      else
        (case performRedo p c of
           Inl e \<Rightarrow> Inl e
         | Inr (p', c') \<Rightarrow> Inr (p', c'\<lparr>mIsUndone := False\<rparr>)))"

text \<open>
  \<open>class CmdProjectSetMetadata\<close> (cmdprojectsetmetadata.h, cmdprojectsetmetadata.cpp).
  The class \<open>Project\<close> is not among the sources; the command is about the name, the
  author, the version and the attributes of the project, which are members of its
  metadata, so the project is its \<open>ProjectMetadata\<close>. The command keeps a reference
  \<open>mProject\<close>; here the project is an argument and a result of the three methods.

  The constructor initialises \<open>mProject\<close> only: the initialisers of the eight members
  are commented out, so all of them are default-constructed, that is empty. The
  bodies of \<open>performUndo\<close> and \<open>performRedo\<close> are commented out, too: both return
  without an effect.
\<close>

type_synonym Project = ProjectMetadata

record CmdProjectSetMetadata = UndoCommand +
  mOldName :: string
  mNewName :: string
  mOldAuthor :: string
  mNewAuthor :: string
  mOldVersion :: string
  mNewVersion :: string
  mOldAttributes :: AttributeList
  mNewAttributes :: AttributeList

definition CmdProjectSetMetadata_new :: "Project \<Rightarrow> CmdProjectSetMetadata" where
  "CmdProjectSetMetadata_new project =
     \<lparr>mIsExecuted = False, mIsUndone = False,
      mOldName = [], mNewName = [], mOldAuthor = [], mNewAuthor = [],
      mOldVersion = [], mNewVersion = [], mOldAttributes = [], mNewAttributes = []\<rparr>"

text \<open>The four setters assert \<open>!wasEverExecuted()\<close> and stage the new value.\<close>

definition CmdProjectSetMetadata_setName ::
  "CmdProjectSetMetadata \<Rightarrow> string \<Rightarrow> exception + CmdProjectSetMetadata" where
  "CmdProjectSetMetadata_setName c newName =
     (if mIsExecuted c then Inl PreconditionViolation else Inr (c\<lparr>mNewName := newName\<rparr>))"

definition CmdProjectSetMetadata_setAuthor ::
  "CmdProjectSetMetadata \<Rightarrow> string \<Rightarrow> exception + CmdProjectSetMetadata" where
  "CmdProjectSetMetadata_setAuthor c newAuthor =
     (if mIsExecuted c then Inl PreconditionViolation else Inr (c\<lparr>mNewAuthor := newAuthor\<rparr>))"

definition CmdProjectSetMetadata_setVersion ::
  "CmdProjectSetMetadata \<Rightarrow> string \<Rightarrow> exception + CmdProjectSetMetadata" where
  "CmdProjectSetMetadata_setVersion c newVersion =
     (if mIsExecuted c then Inl PreconditionViolation else Inr (c\<lparr>mNewVersion := newVersion\<rparr>))"

definition CmdProjectSetMetadata_setAttributes ::
  "CmdProjectSetMetadata \<Rightarrow> AttributeList \<Rightarrow> exception + CmdProjectSetMetadata" where
  "CmdProjectSetMetadata_setAttributes c attributes =
     (if mIsExecuted c then Inl PreconditionViolation
      else Inr (c\<lparr>mNewAttributes := attributes\<rparr>))"

definition performRedo ::
  "Project \<Rightarrow> CmdProjectSetMetadata \<Rightarrow> exception + (Project \<times> CmdProjectSetMetadata)" where
  "performRedo project c = Inr (project, c)"

definition performUndo ::
  "Project \<Rightarrow> CmdProjectSetMetadata \<Rightarrow> exception + (Project \<times> CmdProjectSetMetadata)" where
  "performUndo project c = Inr (project, c)"

definition performExecute ::
  "Project \<Rightarrow> CmdProjectSetMetadata \<Rightarrow> exception + (bool \<times> Project \<times> CmdProjectSetMetadata)" where
  "performExecute project c =
     (case performRedo project c of
        Inl e \<Rightarrow> Inl e
      | Inr (project', c') \<Rightarrow>
          Inr (if mNewName c' \<noteq> mOldName c' then True
               else if mNewAuthor c' \<noteq> mOldAuthor c' then True
               else if mNewVersion c' \<noteq> mOldVersion c' then True
               else if mNewAttributes c' \<noteq> mOldAttributes c' then True
               else False,
               project', c'))"

section \<open>Lemmas on the conversions\<close>

subsection \<open>Decimal digits\<close>

lemma less_10_cases: "n < 10 \<Longrightarrow> n \<in> {0, 1, 2, 3, 4, 5, 6, 7, 8, 9 :: nat}"
  by auto

lemma digit_val_digit_char: "n < 10 \<Longrightarrow> digit_val (digit_char n) = Some n"
  by (drule less_10_cases) (auto simp add: digit_val_def digit_char_def)

lemma digit_char_plain:
  "n < 10 \<Longrightarrow>
   \<not> isSpace (digit_char n) \<and> digit_char n \<noteq> CHR ''-'' \<and> digit_char n \<noteq> CHR ''+''"
  by (drule less_10_cases) (auto simp add: isSpace_def digit_char_def)

lemma digits_value_snoc:
  "digits_value acc (cs @ [c]) =
     (case digits_value acc cs of
        None \<Rightarrow> None
      | Some a \<Rightarrow> (case digit_val c of None \<Rightarrow> None | Some d \<Rightarrow> Some (10 * a + d)))"
  by (induction cs arbitrary: acc) (auto split: option.splits)

lemma digits_value_decimal: "digits_value 0 (decimal n) = Some n"
proof (induction n rule: decimal.induct)
  case (1 n)
  show ?case
  proof (cases "n < 10")
    case True
    then show ?thesis
      by (subst decimal.simps) (simp add: digit_val_digit_char)
  next
    case False
    have "n mod 10 < 10" by simp
    with False 1 show ?thesis
      by (subst decimal.simps) (simp add: digits_value_snoc digit_val_digit_char)
  qed
qed

lemma decimal_nonempty: "decimal n \<noteq> []"
  by (subst decimal.simps) simp

lemma decimal_chars:
  "c \<in> set (decimal n) \<Longrightarrow> \<not> isSpace c \<and> c \<noteq> CHR ''-'' \<and> c \<noteq> CHR ''+''"
proof (induction n rule: decimal.induct)
  case (1 n)
  show ?case
  proof (cases "n < 10")
    case True
    with 1(2) show ?thesis
      using digit_char_plain [of n] by (subst (asm) decimal.simps) simp
  next
    case False
    have m: "n mod 10 < 10" by simp
    from 1(2) False have "c \<in> set (decimal (n div 10)) \<or> c = digit_char (n mod 10)"
      by (subst (asm) decimal.simps) auto
    then show ?thesis
      using 1(1) [OF False] digit_char_plain [OF m] by auto
  qed
qed

lemma parse_decimal_decimal: "parse_decimal (decimal n) = Some n"
  by (simp add: parse_decimal_def decimal_nonempty digits_value_decimal)

lemma length_decimal: "0 < k \<Longrightarrow> n < 10 ^ k \<Longrightarrow> length (decimal n) \<le> k"
proof (induction n arbitrary: k rule: decimal.induct)
  case (1 n)
  show ?case
  proof (cases "n < 10")
    case True
    with 1(2) show ?thesis by (subst decimal.simps) simp
  next
    case False
    from False 1(3) have k: "1 < k"
      by (cases "k = 1") (use 1(2) in auto)
    then obtain j where j: "k = Suc j" and j0: "0 < j" by (cases k) auto
    from 1(3) j have "n div 10 < 10 ^ j"
      by (simp add: less_mult_imp_div_less mult.commute)
    from 1(1) [OF False j0 this] False j show ?thesis
      by (subst decimal.simps) simp
  qed
qed

subsection \<open>Integers\<close>

lemma trimmed_plain:
  assumes "s \<noteq> []" and "\<forall>c \<in> set s. \<not> isSpace c"
  shows "trimmed s = s"
proof -
  from assms have a: "dropWhile isSpace s = s"
    by (cases s) auto
  from assms have "rev s \<noteq> []" and "\<forall>c \<in> set (rev s). \<not> isSpace c" by auto
  then have b: "dropWhile isSpace (rev s) = rev s"
    by (cases "rev s") auto
  show ?thesis by (simp add: trimmed_def a b)
qed

lemma QString_number_nonempty: "QString_number n \<noteq> []"
  by (simp add: QString_number_def decimal_nonempty)

lemma trimmed_Nil: "trimmed [] = []"
  by (simp add: trimmed_def)

lemma QString_toInt_Nil: "QString_toInt [] = None"
  by (simp add: QString_toInt_def trimmed_Nil parse_decimal_def)

lemma QString_toInt_number: "QString_toInt (QString_number (sint w)) = Some w"
proof -
  have lo: "- (2 ^ 31) \<le> sint w" and hi: "sint w < 2 ^ 31"
    using sint_lt [of w] sint_ge [of w] by simp_all
  show ?thesis
  proof (cases "sint w < 0")
    case True
    let ?d = "decimal (nat (- sint w))"
    have plain: "\<forall>c \<in> set (CHR ''-'' # ?d). \<not> isSpace c"
      using decimal_chars by (auto simp add: isSpace_def)
    have t: "trimmed (CHR ''-'' # ?d) = CHR ''-'' # ?d"
      by (rule trimmed_plain) (use plain in simp_all)
    from True lo hi show ?thesis
      by (simp add: QString_toInt_def QString_number_def t parse_decimal_decimal)
  next
    case False
    let ?d = "decimal (nat (sint w))"
    have plain: "\<forall>c \<in> set ?d. \<not> isSpace c"
      using decimal_chars by blast
    have t: "trimmed ?d = ?d"
      by (rule trimmed_plain) (use plain decimal_nonempty in simp_all)
    have h: "hd ?d \<noteq> CHR ''-'' \<and> hd ?d \<noteq> CHR ''+''"
      using decimal_chars [of "hd ?d" "nat (sint w)"] decimal_nonempty [of "nat (sint w)"]
      by simp
    from False lo hi h show ?thesis
      by (simp add: QString_toInt_def QString_number_def t parse_decimal_decimal
          decimal_nonempty)
  qed
qed

subsection \<open>Date and time\<close>

lemma digits_value_zeros: "digits_value 0 (replicate j (CHR ''0'') @ cs) = digits_value 0 cs"
  by (induction j) (simp_all add: digit_val_def)

lemma parse_decimal_pad: "parse_decimal (pad k n) = Some n"
  by (simp add: parse_decimal_def pad_def decimal_nonempty digits_value_zeros
      digits_value_decimal)

lemma length_pad: "0 < k \<Longrightarrow> n < 10 ^ k \<Longrightarrow> length (pad k n) = k"
  using length_decimal [of k n] by (simp add: pad_def)

lemma daysInMonth_le: "daysInMonth y m \<le> 31"
  by (simp add: daysInMonth_def)

lemma iso_fields:
  assumes "length y = 4" and "length m = 2" and "length d = 2"
    and "length h = 2" and "length n = 2" and "length s = 2"
  defines "t \<equiv> y @ ''-'' @ m @ ''-'' @ d @ ''T'' @ h @ '':'' @ n @ '':'' @ s @ ''Z''"
  shows "length t = 20" and "t ! 4 = CHR ''-''" and "t ! 7 = CHR ''-''"
    and "t ! 10 = CHR ''T''" and "t ! 13 = CHR '':''" and "t ! 16 = CHR '':''"
    and "t ! 19 = CHR ''Z''"
    and "take 4 t = y" and "take 2 (drop 5 t) = m" and "take 2 (drop 8 t) = d"
    and "take 2 (drop 11 t) = h" and "take 2 (drop 14 t) = n" and "take 2 (drop 17 t) = s"
  using assms by (simp_all add: nth_append)

lemma toString_ISODate_fields:
  assumes "isValid d" and "1 \<le> year d" and "year d \<le> 9999"
  shows "toString_ISODate d =
      pad 4 (nat (year d)) @ ''-'' @ pad 2 (month d) @ ''-'' @ pad 2 (day d) @ ''T'' @
      pad 2 (hour d) @ '':'' @ pad 2 (minute d) @ '':'' @ pad 2 (second d) @ ''Z''"
  using assms by (simp add: toString_ISODate_def)

lemma toString_ISODate_nonempty:
  assumes "isValid d" and "1 \<le> year d" and "year d \<le> 9999"
  shows "toString_ISODate d \<noteq> []"
  by (simp add: toString_ISODate_fields [OF assms])

lemma fromString_toString:
  assumes "isValid d" and "1 \<le> year d" and "year d \<le> 9999"
  shows "fromString_ISODate (toString_ISODate d) = d\<lparr>msec := 0\<rparr>"
proof -
  have dl: "day d \<le> 31"
    using assms daysInMonth_le [of "year d" "month d"] by (simp add: isValid_def)
  have ly: "length (pad 4 (nat (year d))) = 4"
    using assms by (intro length_pad) simp_all
  have lm: "length (pad 2 (month d)) = 2"
    using assms by (intro length_pad) (simp_all add: isValid_def)
  have ld: "length (pad 2 (day d)) = 2"
    using dl by (intro length_pad) simp_all
  have lh: "length (pad 2 (hour d)) = 2"
    using assms by (intro length_pad) (simp_all add: isValid_def)
  have ln: "length (pad 2 (minute d)) = 2"
    using assms by (intro length_pad) (simp_all add: isValid_def)
  have ls: "length (pad 2 (second d)) = 2"
    using assms by (intro length_pad) (simp_all add: isValid_def)
  have v: "isValid (d\<lparr>msec := 0\<rparr>)"
    using assms by (simp add: isValid_def)
  have r: "\<lparr>year = int (nat (year d)), month = month d, day = day d, hour = hour d,
            minute = minute d, second = second d, msec = 0\<rparr> = d\<lparr>msec := 0\<rparr>"
    using assms by simp
  note f = iso_fields [OF ly lm ld lh ln ls]
  show ?thesis
    unfolding toString_ISODate_fields [OF assms] fromString_ISODate_def
    using v r by (simp only: f parse_decimal_pad) simp
qed

subsection \<open>A conversion after its inverse\<close>

lemma stringToObject_bool_objectToString:
  "stringToObject_bool (objectToString_bool b) throwIfEmpty defaultValue = Inr b"
  by (simp add: stringToObject_bool_def stringToObject_QString_def objectToString_bool_def)

lemma stringToObject_int_objectToString:
  "stringToObject_int (objectToString_int i) throwIfEmpty defaultValue = Inr i"
  by (simp add: stringToObject_int_def stringToObject_QString_def objectToString_int_def
      QString_number_nonempty QString_toInt_number)

lemma stringToObject_QDateTime_objectToString:
  assumes "isValid d" and "1 \<le> year d" and "year d \<le> 9999" and "msec d = 0"
  shows "stringToObject_QDateTime (objectToString_QDateTime d) throwIfEmpty defaultValue = Inr d"
proof -
  have "d\<lparr>msec := 0\<rparr> = d" using assms(4) by simp
  then show ?thesis
    using assms(1)
    by (simp add: stringToObject_QDateTime_def stringToObject_QString_def
        objectToString_QDateTime_def toUTC_def toLocalTime_def
        toString_ISODate_nonempty [OF assms(1-3)] fromString_toString [OF assms(1-3)])
qed

subsection \<open>The conversions on some values\<close>

lemma objectToString_examples:
  "objectToString_bool True = ''true''"
  "objectToString_bool False = ''false''"
  "objectToString_int (- 5) = ''-5''"
  "objectToString_int 0 = ''0''"
  "objectToString_int 1000000 = ''1000000''"
  "objectToString_QDateTime
     \<lparr>year = 2015, month = 2, day = 1, hour = 12, minute = 0, second = 7, msec = 0\<rparr> =
   ''2015-02-01T12:00:07Z''"
  by (simp_all add: objectToString_bool_def objectToString_int_def QString_number_def
      objectToString_QDateTime_def toUTC_def toString_ISODate_def isValid_def
      daysInMonth_def isLeapYear_def pad_def decimal.simps digit_char_def)

lemma stringToObject_examples:
  "stringToObject_int ''-5'' True 0 = Inr (- 5)"
  "stringToObject_int '' 42 '' True 0 = Inr 42"
  "stringToObject_int ''2147483648'' True 0 = Inl (RuntimeError ''Not a valid integer.'')"
  "stringToObject_int [] False 7 = Inr 7"
  "stringToObject_bool [] False True = Inr True"
  "stringToObject_bool ''True'' False True = Inl (RuntimeError ''Not a valid boolean.'')"
  by (simp_all add: stringToObject_int_def stringToObject_bool_def stringToObject_QString_def
      QString_toInt_def trimmed_def isSpace_def parse_decimal_def digit_val_def)

subsection \<open>Text of an element without children\<close>

lemma setText_childless:
  "mChilds e = [] \<Longrightarrow>
   setText objectToString e v = Inr (DomElement (mName e) (objectToString v) [] (mAttributes e))"
  by (simp add: setText_def)

lemma getText_childless:
  "getText stringToObject (DomElement n t [] a) throwIfEmpty defaultValue =
     (case stringToObject t throwIfEmpty defaultValue of
        Inr obj \<Rightarrow> Inr obj
      | Inl ex \<Rightarrow>
          if isException ex then
            Inl (FileParseError []
              (''Text '' @ quoted t @ '' in node '' @ quoted n @ '' is invalid: '' @ getMsg ex))
          else Inl ex)"
  by (simp add: getText_def hasChilds_def split: sum.splits)

section \<open>Missing attributes\<close>

text \<open>
  C1, as the specification states it, does not hold: on an element without attributes,
  \<open>getAttribute<bool>\<close> with \<open>throwIfEmpty = false\<close> and the default \<open>true\<close> does not
  return the default, it throws.
\<close>

theorem getAttribute_missing_default_counterexample:
  "getAttribute stringToObject_bool (DomElement ''signal'' [] [] Map.empty) ''clock'' False True
     \<noteq> Inr True"
  by (simp add: getAttribute_def)

text \<open>
  C1, amended: when the name is absent from the attribute map, \<open>getAttribute\<close> fails
  with the \<open>FileParseError\<close> "Attribute ... not found in node ...", for every conversion,
  whether the value is required or not and whatever the default is. The default is what
  \<open>getAttribute<bool>\<close> returns when the attribute is present with an empty value and
  is not required.
\<close>

theorem getAttribute_missing:
  "(mAttributes e name = None \<longrightarrow>
      getAttribute stringToObject e name throwIfEmpty defaultValue =
        Inl (FileParseError []
          (''Attribute '' @ quoted name @ '' not found in node '' @ quoted (mName e) @ ''.'')))
   \<and> (mAttributes e name = Some [] \<longrightarrow>
      getAttribute stringToObject_bool e name False d = Inr d)"
  by (simp add: getAttribute_def stringToObject_bool_def stringToObject_QString_def)

theorem getAttribute_missing_witness:
  "mAttributes (DomElement ''signal'' [] [] (Map.empty(''role'' \<mapsto> []))) ''clock'' = None
   \<and> getAttribute stringToObject_bool
        (DomElement ''signal'' [] [] (Map.empty(''role'' \<mapsto> []))) ''clock'' True False =
      Inl (FileParseError [] (''Attribute '' @ quoted ''clock'' @ '' not found in node '' @
        quoted ''signal'' @ ''.''))
   \<and> mAttributes (DomElement ''signal'' [] [] (Map.empty(''role'' \<mapsto> []))) ''role'' = Some []
   \<and> getAttribute stringToObject_bool
        (DomElement ''signal'' [] [] (Map.empty(''role'' \<mapsto> []))) ''role'' False True = Inr True"
  using getAttribute_missing
    [where e = "DomElement ''signal'' [] [] (Map.empty(''role'' \<mapsto> []))"
       and name = "''clock''" and stringToObject = stringToObject_bool
       and throwIfEmpty = True and defaultValue = False and d = True]
    getAttribute_missing
    [where e = "DomElement ''signal'' [] [] (Map.empty(''role'' \<mapsto> []))"
       and name = "''role''" and stringToObject = stringToObject_bool
       and throwIfEmpty = True and defaultValue = False and d = True]
  by simp

section \<open>Executing and undoing the edit of the metadata\<close>

text \<open>
  What \<open>execute\<close> does on a command that has not been executed: the project and the
  members of the command stay as they are, and the result says whether a staged value
  differs from the prior value the command holds. After the constructor the prior
  values are empty.
\<close>

lemma execute_unexecuted:
  "\<not> mIsExecuted c \<Longrightarrow>
   execute performExecute p c =
     Inr (mNewName c \<noteq> mOldName c \<or> mNewAuthor c \<noteq> mOldAuthor c \<or>
          mNewVersion c \<noteq> mOldVersion c \<or> mNewAttributes c \<noteq> mOldAttributes c,
          p, c\<lparr>mIsExecuted := True\<rparr>)"
  by (simp add: execute_def performExecute_def performRedo_def)

lemma CmdProjectSetMetadata_new_prior:
  "mOldName (CmdProjectSetMetadata_new p) = [] \<and> mOldAuthor (CmdProjectSetMetadata_new p) = []
   \<and> mOldVersion (CmdProjectSetMetadata_new p) = []
   \<and> mOldAttributes (CmdProjectSetMetadata_new p) = []"
  by (simp add: CmdProjectSetMetadata_new_def)

text \<open>
  C2 does not hold on the code. A project named \<open>Old\<close> and a command with the staged
  name \<open>New\<close>: \<open>execute\<close> reports a change, the project keeps its name, and the prior
  name the command holds is the empty string, not \<open>Old\<close>. And a command that stages
  the values the project already has: \<open>execute\<close> reports a change although the project
  is as it was.
\<close>

theorem execute_at_failing_input:
  "CmdProjectSetMetadata_setName
     (CmdProjectSetMetadata_new
        \<lparr>mName_meta = ''Old'', mAuthor = ''me'', mVersion = ''v1'',
         mCreated = QDateTime_null, mLastModified = QDateTime_null, mAttributes_meta = []\<rparr>)
     ''New'' =
     Inr \<lparr>mIsExecuted = False, mIsUndone = False,
          mOldName = [], mNewName = ''New'', mOldAuthor = [], mNewAuthor = [],
          mOldVersion = [], mNewVersion = [], mOldAttributes = [], mNewAttributes = []\<rparr>
   \<and> execute performExecute
        \<lparr>mName_meta = ''Old'', mAuthor = ''me'', mVersion = ''v1'',
         mCreated = QDateTime_null, mLastModified = QDateTime_null, mAttributes_meta = []\<rparr>
        \<lparr>mIsExecuted = False, mIsUndone = False,
         mOldName = [], mNewName = ''New'', mOldAuthor = [], mNewAuthor = [],
         mOldVersion = [], mNewVersion = [], mOldAttributes = [], mNewAttributes = []\<rparr> =
     Inr (True,
          \<lparr>mName_meta = ''Old'', mAuthor = ''me'', mVersion = ''v1'',
           mCreated = QDateTime_null, mLastModified = QDateTime_null, mAttributes_meta = []\<rparr>,
          \<lparr>mIsExecuted = True, mIsUndone = False,
           mOldName = [], mNewName = ''New'', mOldAuthor = [], mNewAuthor = [],
           mOldVersion = [], mNewVersion = [], mOldAttributes = [], mNewAttributes = []\<rparr>)
   \<and> execute performExecute
        \<lparr>mName_meta = ''Old'', mAuthor = ''me'', mVersion = ''v1'',
         mCreated = QDateTime_null, mLastModified = QDateTime_null, mAttributes_meta = []\<rparr>
        \<lparr>mIsExecuted = False, mIsUndone = False,
         mOldName = [], mNewName = ''Old'', mOldAuthor = [], mNewAuthor = ''me'',
         mOldVersion = [], mNewVersion = ''v1'', mOldAttributes = [], mNewAttributes = []\<rparr> =
     Inr (True,
          \<lparr>mName_meta = ''Old'', mAuthor = ''me'', mVersion = ''v1'',
           mCreated = QDateTime_null, mLastModified = QDateTime_null, mAttributes_meta = []\<rparr>,
          \<lparr>mIsExecuted = True, mIsUndone = False,
           mOldName = [], mNewName = ''Old'', mOldAuthor = [], mNewAuthor = ''me'',
           mOldVersion = [], mNewVersion = ''v1'', mOldAttributes = [],
           mNewAttributes = []\<rparr>)"
  by (simp add: CmdProjectSetMetadata_setName_def CmdProjectSetMetadata_new_def execute_def
      performExecute_def performRedo_def)

text \<open>
  What \<open>undo\<close> does on a command that is executed and not undone: whatever the
  project holds, it stays as it is, and so do the members of the command; only the
  undone flag is set. Nothing is written from the prior values the command holds.
\<close>

lemma undo_executed:
  "mIsExecuted c \<Longrightarrow> \<not> mIsUndone c \<Longrightarrow>
   undo performUndo p c = Inr (p, c\<lparr>mIsUndone := True\<rparr>)"
  by (simp add: undo_def performUndo_def)


section \<open>Round trip of a text\<close>

text \<open>
  C4, as the specification states it, does not hold for every valid date-time. The
  ISO format of the text has no milliseconds: a valid date-time half a second after
  a full second comes back as the full second. (For a valid date-time in the year
  10000 the text is empty, and \<open>getText\<close> with \<open>throwIfEmpty = true\<close> throws.)
\<close>

theorem setText_getText_QDateTime_counterexample:
  "isValid \<lparr>year = 2015, month = 2, day = 1, hour = 12, minute = 0, second = 7, msec = 500\<rparr>
   \<and> setText objectToString_QDateTime (DomElement_new ''created'' [])
        \<lparr>year = 2015, month = 2, day = 1, hour = 12, minute = 0, second = 7, msec = 500\<rparr> =
      Inr (DomElement ''created'' ''2015-02-01T12:00:07Z'' [] Map.empty)
   \<and> getText stringToObject_QDateTime
        (DomElement ''created'' ''2015-02-01T12:00:07Z'' [] Map.empty) True QDateTime_null =
      Inr \<lparr>year = 2015, month = 2, day = 1, hour = 12, minute = 0, second = 7, msec = 0\<rparr>
   \<and> isValid \<lparr>year = 10000, month = 1, day = 1, hour = 0, minute = 0, second = 0, msec = 0\<rparr>
   \<and> setText objectToString_QDateTime (DomElement_new ''created'' [])
        \<lparr>year = 10000, month = 1, day = 1, hour = 0, minute = 0, second = 0, msec = 0\<rparr> =
      Inr (DomElement ''created'' [] [] Map.empty)
   \<and> getText stringToObject_QDateTime (DomElement ''created'' [] [] Map.empty) True
        QDateTime_null =
      Inl (FileParseError []
        (''Text '' @ quoted [] @ '' in node '' @ quoted ''created'' @
         '' is invalid: String is empty.''))"
  by (simp add: setText_def getText_def hasChilds_def DomElement_new_def
      objectToString_QDateTime_def stringToObject_QDateTime_def stringToObject_QString_def
      toUTC_def toLocalTime_def toString_ISODate_def fromString_ISODate_def
      isValid_def daysInMonth_def isLeapYear_def QDateTime_null_def
      pad_def decimal.simps digit_char_def parse_decimal_def digit_val_def)

text \<open>
  C4, amended: on an element without children, \<open>setText\<close> of a value followed by
  \<open>getText\<close> with \<open>throwIfEmpty = true\<close> returns the value, for every boolean, for
  every \<open>int\<close>, and for every valid date-time of a year from 1 to 9999 that has no
  milliseconds. (The text is \<open>true\<close> or \<open>false\<close>, the number in base 10, and the
  date-time in UTC as \<open>yyyy-MM-ddTHH:mm:ssZ\<close>.)
\<close>

theorem setText_getText_roundtrip:
  assumes "mChilds e = []"
  shows "(\<exists>e'. setText objectToString_bool e b = Inr e' \<and>
            getText stringToObject_bool e' True defaultBool = Inr b)
     \<and> (\<exists>e'. setText objectToString_int e i = Inr e' \<and>
            getText stringToObject_int e' True defaultInt = Inr i)
     \<and> (isValid d \<and> 1 \<le> year d \<and> year d \<le> 9999 \<and> msec d = 0 \<longrightarrow>
          (\<exists>e'. setText objectToString_QDateTime e d = Inr e' \<and>
             getText stringToObject_QDateTime e' True defaultDateTime = Inr d))"
proof (intro conjI impI)
  show "\<exists>e'. setText objectToString_bool e b = Inr e' \<and>
          getText stringToObject_bool e' True defaultBool = Inr b"
    by (simp add: setText_childless [OF assms] getText_childless
        stringToObject_bool_objectToString)
  show "\<exists>e'. setText objectToString_int e i = Inr e' \<and>
          getText stringToObject_int e' True defaultInt = Inr i"
    by (simp add: setText_childless [OF assms] getText_childless
        stringToObject_int_objectToString)
next
  assume "isValid d \<and> 1 \<le> year d \<and> year d \<le> 9999 \<and> msec d = 0"
  then have "stringToObject_QDateTime (objectToString_QDateTime d) True defaultDateTime = Inr d"
    by (intro stringToObject_QDateTime_objectToString) simp_all
  then show "\<exists>e'. setText objectToString_QDateTime e d = Inr e' \<and>
          getText stringToObject_QDateTime e' True defaultDateTime = Inr d"
    by (simp add: setText_childless [OF assms] getText_childless)
qed

theorem setText_getText_roundtrip_witness:
  "mChilds (DomElement_new ''created'' []) = []
   \<and> isValid \<lparr>year = 2015, month = 2, day = 1, hour = 12, minute = 0, second = 7, msec = 0\<rparr>
   \<and> (\<exists>e'. setText objectToString_bool (DomElement_new ''created'' []) True = Inr e' \<and>
          getText stringToObject_bool e' True False = Inr True)
   \<and> (\<exists>e'. setText objectToString_int (DomElement_new ''created'' []) (- 5) = Inr e' \<and>
          getText stringToObject_int e' True 0 = Inr (- 5))
   \<and> (\<exists>e'. setText objectToString_QDateTime (DomElement_new ''created'' [])
            \<lparr>year = 2015, month = 2, day = 1, hour = 12, minute = 0, second = 7, msec = 0\<rparr> =
          Inr e' \<and>
          getText stringToObject_QDateTime e' True QDateTime_null =
          Inr \<lparr>year = 2015, month = 2, day = 1, hour = 12, minute = 0, second = 7, msec = 0\<rparr>)"
proof -
  have c: "mChilds (DomElement_new ''created'' []) = []"
    by (simp add: DomElement_new_def)
  have v: "isValid
      \<lparr>year = 2015, month = 2, day = 1, hour = 12, minute = 0, second = 7, msec = 0\<rparr>"
    by (simp add: isValid_def daysInMonth_def)
  show ?thesis
    using c v
      setText_getText_roundtrip [OF c, where b = True and defaultBool = False
        and i = "- 5" and defaultInt = 0 and defaultDateTime = QDateTime_null
        and d = "\<lparr>year = 2015, month = 2, day = 1, hour = 12, minute = 0, second = 7,
                  msec = 0\<rparr>"]
    by simp
qed

section \<open>The cases of a conversion\<close>

text \<open>
  C5, as the specification states it, does not hold: the failure of \<open>stringToObject\<close>
  on a text that does not parse carries a fixed message, not the text. Two texts give
  the same failure, and the text is no part of the message.
\<close>

theorem stringToObject_raw_text_counterexample:
  "stringToObject_bool ''maybe'' True False = Inl (RuntimeError ''Not a valid boolean.'')
   \<and> stringToObject_bool ''yes'' True False = Inl (RuntimeError ''Not a valid boolean.'')
   \<and> \<not> sublist ''maybe'' (getMsg (RuntimeError ''Not a valid boolean.''))
   \<and> stringToObject_int ''12x'' True 0 = Inl (RuntimeError ''Not a valid integer.'')
   \<and> \<not> sublist ''12x'' (getMsg (RuntimeError ''Not a valid integer.''))"
  by (simp add: stringToObject_bool_def stringToObject_int_def stringToObject_QString_def
      QString_toInt_def trimmed_def isSpace_def parse_decimal_def digit_val_def
      sublist_Cons_right prefix_Cons)

text \<open>
  C5, amended: for \<open>bool\<close> and \<open>int\<close> and every text: an empty text gives the default
  when \<open>throwIfEmpty\<close> is false and the failure "String is empty." when it is true; a
  text that is not empty gives the parsed value when it parses, and otherwise a
  \<open>RuntimeError\<close> whose message names the type and not the text ("Not a valid
  boolean.", "Not a valid integer."). The text is added by \<open>getText\<close> (and in the same
  way by \<open>getAttribute\<close>), which throws the failure again as a \<open>FileParseError\<close> whose
  message quotes the text and the name of the node.
\<close>

theorem stringToObject_cases:
  "stringToObject_bool s throwIfEmpty defaultBool =
     (if s = [] then
        (if throwIfEmpty then Inl (RuntimeError ''String is empty.'') else Inr defaultBool)
      else if s = ''true'' then Inr True
      else if s = ''false'' then Inr False
      else Inl (RuntimeError ''Not a valid boolean.''))
   \<and> stringToObject_int s throwIfEmpty defaultInt =
     (if s = [] then
        (if throwIfEmpty then Inl (RuntimeError ''String is empty.'') else Inr defaultInt)
      else
        (case QString_toInt s of
           Some v \<Rightarrow> Inr v
         | None \<Rightarrow> Inl (RuntimeError ''Not a valid integer.'')))
   \<and> getText stringToObject_bool (DomElement n s [] a) throwIfEmpty defaultBool =
     (case stringToObject_bool s throwIfEmpty defaultBool of
        Inr v \<Rightarrow> Inr v
      | Inl ex \<Rightarrow>
          Inl (FileParseError []
            (''Text '' @ quoted s @ '' in node '' @ quoted n @ '' is invalid: '' @ getMsg ex)))
   \<and> getText stringToObject_int (DomElement n s [] a) throwIfEmpty defaultInt =
     (case stringToObject_int s throwIfEmpty defaultInt of
        Inr v \<Rightarrow> Inr v
      | Inl ex \<Rightarrow>
          Inl (FileParseError []
            (''Text '' @ quoted s @ '' in node '' @ quoted n @ '' is invalid: '' @ getMsg ex)))"
proof (intro conjI)
  show "stringToObject_bool s throwIfEmpty defaultBool =
     (if s = [] then
        (if throwIfEmpty then Inl (RuntimeError ''String is empty.'') else Inr defaultBool)
      else if s = ''true'' then Inr True
      else if s = ''false'' then Inr False
      else Inl (RuntimeError ''Not a valid boolean.''))"
    by (simp add: stringToObject_bool_def stringToObject_QString_def)
  show "stringToObject_int s throwIfEmpty defaultInt =
     (if s = [] then
        (if throwIfEmpty then Inl (RuntimeError ''String is empty.'') else Inr defaultInt)
      else
        (case QString_toInt s of
           Some v \<Rightarrow> Inr v
         | None \<Rightarrow> Inl (RuntimeError ''Not a valid integer.'')))"
    by (simp add: stringToObject_int_def stringToObject_QString_def QString_toInt_Nil)
  show "getText stringToObject_bool (DomElement n s [] a) throwIfEmpty defaultBool =
     (case stringToObject_bool s throwIfEmpty defaultBool of
        Inr v \<Rightarrow> Inr v
      | Inl ex \<Rightarrow>
          Inl (FileParseError []
            (''Text '' @ quoted s @ '' in node '' @ quoted n @ '' is invalid: '' @ getMsg ex)))"
    by (simp add: getText_def hasChilds_def stringToObject_bool_def
        stringToObject_QString_def split: sum.splits)
  show "getText stringToObject_int (DomElement n s [] a) throwIfEmpty defaultInt =
     (case stringToObject_int s throwIfEmpty defaultInt of
        Inr v \<Rightarrow> Inr v
      | Inl ex \<Rightarrow>
          Inl (FileParseError []
            (''Text '' @ quoted s @ '' in node '' @ quoted n @ '' is invalid: '' @ getMsg ex)))"
    by (simp add: getText_def hasChilds_def stringToObject_int_def
        stringToObject_QString_def split: sum.splits option.splits)
qed

section \<open>Text and children exclude each other\<close>

lemma textXorChilds_iff:
  "textXorChilds e =
     ((mChilds e = [] \<or> mText e = []) \<and> (\<forall>c \<in> set (mChilds e). textXorChilds c))"
  by (cases e) simp

lemma textXorChilds_new: "textXorChilds (DomElement_new name text)"
  by (simp add: DomElement_new_def)

lemma textXorChilds_setText:
  "setText objectToString e v = Inr e' \<Longrightarrow> textXorChilds e'"
  by (auto simp add: setText_def split: if_splits)

lemma textXorChilds_appendChild:
  "textXorChilds e \<Longrightarrow> textXorChilds child \<Longrightarrow> appendChild e child = Inr e' \<Longrightarrow>
   textXorChilds e'"
  by (auto simp add: appendChild_def textXorChilds_iff [of e] split: if_splits)

lemma textXorChilds_removeChild: "textXorChilds e \<Longrightarrow> textXorChilds (removeChild e i)"
  by (auto simp add: removeChild_def textXorChilds_iff [of e]
      dest: in_set_takeD in_set_dropD)

text \<open>
  C6: \<open>setText\<close> on an element that has a child fails with \<open>PreconditionViolation\<close>
  (the assertion of domelement.h, line 156), and \<open>appendChild\<close>, in both forms, on an
  element that has a text fails with \<open>PreconditionViolation\<close>. A failure is the whole
  result: no element with the text set or the child appended comes back.
\<close>

theorem setText_appendChild_rejected:
  "(mChilds e \<noteq> [] \<longrightarrow> setText objectToString e v = Inl PreconditionViolation)
   \<and> (mText e \<noteq> [] \<longrightarrow>
        appendChild e child = Inl PreconditionViolation \<and>
        appendChild_name e name = Inl PreconditionViolation)"
  by (simp add: setText_def appendChild_def appendChild_name_def)

theorem setText_appendChild_rejected_witness:
  "mChilds (DomElement ''signal'' [] [DomElement_new ''pin'' []] Map.empty) \<noteq> []
   \<and> setText objectToString_QString
        (DomElement ''signal'' [] [DomElement_new ''pin'' []] Map.empty) ''VCC'' =
      Inl PreconditionViolation
   \<and> mText (DomElement_new ''signal'' ''VCC'') \<noteq> []
   \<and> appendChild (DomElement_new ''signal'' ''VCC'') (DomElement_new ''pin'' []) =
      Inl PreconditionViolation
   \<and> appendChild_name (DomElement_new ''signal'' ''VCC'') ''pin'' =
      Inl PreconditionViolation"
  using setText_appendChild_rejected
    [where e = "DomElement ''signal'' [] [DomElement_new ''pin'' []] Map.empty"
       and objectToString = objectToString_QString and v = "''VCC''"]
    setText_appendChild_rejected
    [where e = "DomElement_new ''signal'' ''VCC''" and child = "DomElement_new ''pin'' []"
       and name = "''pin''"]
  by (simp add: DomElement_new_def)

text \<open>
  C7: the operations keep the invariant that text and children exclude each other,
  on the element and below it. A new element has it. When the element has it (and
  the child to append has it), the element that \<open>setText\<close>, \<open>appendChild\<close> (in both
  forms) or \<open>appendTextChild\<close> returns has it, and so has the new child; the element
  after \<open>removeChild\<close> has it.
\<close>

theorem textXorChilds_preserved:
  assumes "textXorChilds e" and "textXorChilds child"
  shows "textXorChilds (DomElement_new name content)
     \<and> (\<forall>e'. setText objectToString e v = Inr e' \<longrightarrow> textXorChilds e')
     \<and> (\<forall>e'. appendChild e child = Inr e' \<longrightarrow> textXorChilds e')
     \<and> (\<forall>c e'. appendChild_name e name = Inr (c, e') \<longrightarrow>
          textXorChilds c \<and> textXorChilds e')
     \<and> (\<forall>c e'. appendTextChild objectToString e name v = Inr (c, e') \<longrightarrow>
          textXorChilds c \<and> textXorChilds e')
     \<and> textXorChilds (removeChild e i)"
proof (intro conjI allI impI)
  show "textXorChilds (DomElement_new name content)"
    by (rule textXorChilds_new)
  show "textXorChilds (removeChild e i)"
    using assms(1) by (rule textXorChilds_removeChild)
next
  fix e' assume "setText objectToString e v = Inr e'"
  then show "textXorChilds e'" by (rule textXorChilds_setText)
next
  fix e' assume "appendChild e child = Inr e'"
  with assms show "textXorChilds e'" by (rule textXorChilds_appendChild)
next
  fix c e' assume a: "appendChild_name e name = Inr (c, e')"
  then have c: "c = DomElement_new name []" and "appendChild e c = Inr e'"
    by (auto simp add: appendChild_name_def Let_def split: sum.splits)
  then show "textXorChilds c" and "textXorChilds e'"
    using assms(1) textXorChilds_new textXorChilds_appendChild by blast+
next
  fix c e' assume a: "appendTextChild objectToString e name v = Inr (c, e')"
  then have c: "c = DomElement_new name (objectToString v)" and "appendChild e c = Inr e'"
    by (auto simp add: appendTextChild_def Let_def split: sum.splits)
  then show "textXorChilds c" and "textXorChilds e'"
    using assms(1) textXorChilds_new textXorChilds_appendChild by blast+
qed

theorem textXorChilds_preserved_witness:
  "textXorChilds (DomElement ''project'' [] [DomElement_new ''name'' ''demo''] Map.empty)
   \<and> textXorChilds (DomElement_new ''author'' ''me'')
   \<and> textXorChilds (DomElement_new ''version'' [])
   \<and> appendChild (DomElement ''project'' [] [DomElement_new ''name'' ''demo''] Map.empty)
        (DomElement_new ''author'' ''me'') =
      Inr (DomElement ''project'' []
        [DomElement_new ''name'' ''demo'', DomElement_new ''author'' ''me''] Map.empty)
   \<and> textXorChilds (DomElement ''project'' []
        [DomElement_new ''name'' ''demo'', DomElement_new ''author'' ''me''] Map.empty)
   \<and> appendTextChild objectToString_QString
        (DomElement ''project'' [] [DomElement_new ''name'' ''demo''] Map.empty)
        ''version'' ''v1'' =
      Inr (DomElement_new ''version'' ''v1'',
        DomElement ''project'' []
          [DomElement_new ''name'' ''demo'', DomElement_new ''version'' ''v1''] Map.empty)
   \<and> textXorChilds (DomElement ''project'' []
        [DomElement_new ''name'' ''demo'', DomElement_new ''version'' ''v1''] Map.empty)
   \<and> textXorChilds
        (removeChild (DomElement ''project'' [] [DomElement_new ''name'' ''demo''] Map.empty) 0)"
proof -
  have e: "textXorChilds (DomElement ''project'' [] [DomElement_new ''name'' ''demo''] Map.empty)"
    by (simp add: DomElement_new_def)
  have c: "textXorChilds (DomElement_new ''author'' ''me'')"
    by (simp add: DomElement_new_def)
  have n: "textXorChilds (DomElement_new ''version'' [])"
    by (simp add: DomElement_new_def)
  note kept = textXorChilds_preserved [OF e c, where name = "''version''" and content = "[]"
      and objectToString = objectToString_QString and v = "''v1''" and i = 0]
  have a: "appendChild (DomElement ''project'' [] [DomElement_new ''name'' ''demo''] Map.empty)
        (DomElement_new ''author'' ''me'') =
      Inr (DomElement ''project'' []
        [DomElement_new ''name'' ''demo'', DomElement_new ''author'' ''me''] Map.empty)"
    by (simp add: appendChild_def)
  have t: "appendTextChild objectToString_QString
        (DomElement ''project'' [] [DomElement_new ''name'' ''demo''] Map.empty)
        ''version'' ''v1'' =
      Inr (DomElement_new ''version'' ''v1'',
        DomElement ''project'' []
          [DomElement_new ''name'' ''demo'', DomElement_new ''version'' ''v1''] Map.empty)"
    by (simp add: appendTextChild_def appendChild_def objectToString_QString_def Let_def)
  from kept a have ka: "textXorChilds (DomElement ''project'' []
        [DomElement_new ''name'' ''demo'', DomElement_new ''author'' ''me''] Map.empty)"
    by blast
  from kept t have kt: "textXorChilds (DomElement ''project'' []
        [DomElement_new ''name'' ''demo'', DomElement_new ''version'' ''v1''] Map.empty)"
    by blast
  from kept have kr: "textXorChilds
        (removeChild (DomElement ''project'' [] [DomElement_new ''name'' ''demo''] Map.empty) 0)"
    by blast
  from e c n a ka t kt kr show ?thesis
    by (intro conjI)
qed

section \<open>The setters of a component signal\<close>

text \<open>
  C8: each of the six setters of \<open>ComponentSignal\<close> leaves a signal whose targeted
  member is the argument and whose other members are as before (the signal with that
  one member updated). It emits its own change signal, carrying the new value, and
  then \<open>edited\<close>, when the argument differs from the member; when the argument is the
  value of the member it emits nothing and the signal object is as before.
\<close>

theorem setters_change_and_notify:
  "fst (setName name s) = s\<lparr>mName_signal := name\<rparr>
   \<and> snd (setName name s) = (if name = mName_signal s then [] else [nameChanged name, edited])
   \<and> setName (mName_signal s) s = (s, [])
   \<and> fst (setRole role s) = s\<lparr>mRole := role\<rparr>
   \<and> snd (setRole role s) = (if role = mRole s then [] else [roleChanged role, edited])
   \<and> setRole (mRole s) s = (s, [])
   \<and> fst (setForcedNetName net s) = s\<lparr>mForcedNetName := net\<rparr>
   \<and> snd (setForcedNetName net s) =
       (if net = mForcedNetName s then [] else [forcedNetNameChanged net, edited])
   \<and> setForcedNetName (mForcedNetName s) s = (s, [])
   \<and> fst (setIsRequired required s) = s\<lparr>mIsRequired := required\<rparr>
   \<and> snd (setIsRequired required s) =
       (if required = mIsRequired s then [] else [isRequiredChanged required, edited])
   \<and> setIsRequired (mIsRequired s) s = (s, [])
   \<and> fst (setIsNegated negated s) = s\<lparr>mIsNegated := negated\<rparr>
   \<and> snd (setIsNegated negated s) =
       (if negated = mIsNegated s then [] else [isNegatedChanged negated, edited])
   \<and> setIsNegated (mIsNegated s) s = (s, [])
   \<and> fst (setIsClock clock s) = s\<lparr>mIsClock := clock\<rparr>
   \<and> snd (setIsClock clock s) =
       (if clock = mIsClock s then [] else [isClockChanged clock, edited])
   \<and> setIsClock (mIsClock s) s = (s, [])"
  by (simp add: setName_def setRole_def setForcedNetName_def setIsRequired_def
      setIsNegated_def setIsClock_def)

section \<open>A component signal written and read back\<close>

lemma getAttribute_present:
  "mAttributes e name = Some v \<Longrightarrow>
   getAttribute stringToObject e name throwIfEmpty defaultValue =
     (case stringToObject v throwIfEmpty defaultValue of
        Inr obj \<Rightarrow> Inr obj
      | Inl ex \<Rightarrow>
          if isException ex then
            Inl (FileParseError []
              (''Invalid attribute '' @ name @ ''='' @ quoted v @ '' in node '' @
               quoted (mName e) @ '': '' @ getMsg ex))
          else Inl ex)"
  by (simp add: getAttribute_def)

lemma stringToObject_T_serialized:
  "serializeToString T x \<noteq> [] \<Longrightarrow>
   deserializeFromString T (serializeToString T x) = Inr x \<Longrightarrow>
   stringToObject_T T (objectToString_T T x) throwIfEmpty defaultValue = Inr x"
  by (simp add: stringToObject_T_def objectToString_T_def stringToObject_QString_def)

lemma stringToObject_QString_plain:
  "stringToObject_QString str False [] = Inr str"
  "str \<noteq> [] \<Longrightarrow> stringToObject_QString str True [] = Inr str"
  by (simp_all add: stringToObject_QString_def)

lemma serialize_result:
  assumes "\<not> isNull (mUuid s)" and "mName_signal s \<noteq> []" and "mChilds e = []"
  shows "serialize U R isNull s e =
     Inr (DomElement (mName e) (mName_signal s) []
       ((mAttributes e)
         (''uuid'' \<mapsto> objectToString_T U (mUuid s),
          ''role'' \<mapsto> objectToString_T R (mRole s),
          ''forced_net_name'' \<mapsto> mForcedNetName s,
          ''required'' \<mapsto> objectToString_bool (mIsRequired s),
          ''negated'' \<mapsto> objectToString_bool (mIsNegated s),
          ''clock'' \<mapsto> objectToString_bool (mIsClock s))))"
  using assms
  by (simp add: serialize_def checkAttributesValidity_def setAttribute_def setText_def
      objectToString_QString_def Let_def)

text \<open>
  C9: a signal with a non-null UUID and a non-empty name, serialized into an element
  without children and constructed again from that element, is equal (\<open>operator==\<close>)
  to the signal. The classes \<open>Uuid\<close> and \<open>SignalRole\<close> are parameters; what is assumed
  of them is that the text of the UUID and of the role of the signal is not empty and
  that \<open>deserializeFromString\<close> gives the value back from it.
\<close>

theorem serialize_construct_roundtrip:
  assumes "\<not> isNull (mUuid s)" and "mName_signal s \<noteq> []" and "mChilds e = []"
    and "serializeToString U (mUuid s) \<noteq> []"
    and "deserializeFromString U (serializeToString U (mUuid s)) = Inr (mUuid s)"
    and "serializeToString R (mRole s) \<noteq> []"
    and "deserializeFromString R (serializeToString R (mRole s)) = Inr (mRole s)"
  shows "\<exists>e' s'. serialize U R isNull s e = Inr e' \<and>
           ComponentSignal_fromDomElement U R isNull e' = Inr s' \<and>
           ComponentSignal_eq s' s \<and> s' = s"
proof -
  let ?e' = "DomElement (mName e) (mName_signal s) []
       ((mAttributes e)
         (''uuid'' \<mapsto> objectToString_T U (mUuid s),
          ''role'' \<mapsto> objectToString_T R (mRole s),
          ''forced_net_name'' \<mapsto> mForcedNetName s,
          ''required'' \<mapsto> objectToString_bool (mIsRequired s),
          ''negated'' \<mapsto> objectToString_bool (mIsNegated s),
          ''clock'' \<mapsto> objectToString_bool (mIsClock s)))"
  have w: "serialize U R isNull s e = Inr ?e'"
    using assms(1-3) by (rule serialize_result)
  have u: "getAttribute (stringToObject_T U) ?e' ''uuid'' True (defaultConstructed U) =
      Inr (mUuid s)"
    by (simp add: getAttribute_present stringToObject_T_serialized [OF assms(4,5)])
  have n: "getText stringToObject_QString ?e' True [] = Inr (mName_signal s)"
    using assms(2) by (simp add: getText_childless stringToObject_QString_plain)
  have r: "getAttribute (stringToObject_T R) ?e' ''role'' True (defaultConstructed R) =
      Inr (mRole s)"
    by (simp add: getAttribute_present stringToObject_T_serialized [OF assms(6,7)])
  have f: "getAttribute stringToObject_QString ?e' ''forced_net_name'' False [] =
      Inr (mForcedNetName s)"
    by (simp add: getAttribute_present stringToObject_QString_plain)
  have q: "getAttribute stringToObject_bool ?e' ''required'' True False = Inr (mIsRequired s)"
    by (simp add: getAttribute_present stringToObject_bool_objectToString)
  have g: "getAttribute stringToObject_bool ?e' ''negated'' True False = Inr (mIsNegated s)"
    by (simp add: getAttribute_present stringToObject_bool_objectToString)
  have c: "getAttribute stringToObject_bool ?e' ''clock'' True False = Inr (mIsClock s)"
    by (simp add: getAttribute_present stringToObject_bool_objectToString)
  have v: "checkAttributesValidity isNull s"
    using assms(1,2) by (simp add: checkAttributesValidity_def)
  have s: "\<lparr>mUuid = mUuid s, mName_signal = mName_signal s, mRole = mRole s,
      mForcedNetName = mForcedNetName s, mIsRequired = mIsRequired s,
      mIsNegated = mIsNegated s, mIsClock = mIsClock s\<rparr> = s"
    by simp
  have again: "ComponentSignal_fromDomElement U R isNull ?e' = Inr s"
    unfolding ComponentSignal_fromDomElement_def u n r f q g c
    using v by (simp add: Let_def s)
  have "ComponentSignal_eq s s"
    by (simp add: ComponentSignal_eq_def)
  with w again show ?thesis by blast
qed

theorem serialize_construct_roundtrip_witness:
  "mName_signal
     \<lparr>mUuid = ''6f28c6d4'', mName_signal = ''VCC'', mRole = ''power'',
      mForcedNetName = ''VCC'', mIsRequired = True, mIsNegated = False, mIsClock = False\<rparr> \<noteq> []
   \<and> mChilds (DomElement_new ''signal'' []) = []
   \<and> (\<exists>e' s'.
         serialize
           \<lparr>defaultConstructed = [], serializeToString = (\<lambda>u. u),
            deserializeFromString = (\<lambda>str. Inr str)\<rparr>
           \<lparr>defaultConstructed = ''passive'', serializeToString = (\<lambda>r. r),
            deserializeFromString = (\<lambda>str. Inr str)\<rparr>
           (\<lambda>u. u = [])
           \<lparr>mUuid = ''6f28c6d4'', mName_signal = ''VCC'', mRole = ''power'',
            mForcedNetName = ''VCC'', mIsRequired = True, mIsNegated = False,
            mIsClock = False\<rparr>
           (DomElement_new ''signal'' []) = Inr e' \<and>
         ComponentSignal_fromDomElement
           \<lparr>defaultConstructed = [], serializeToString = (\<lambda>u. u),
            deserializeFromString = (\<lambda>str. Inr str)\<rparr>
           \<lparr>defaultConstructed = ''passive'', serializeToString = (\<lambda>r. r),
            deserializeFromString = (\<lambda>str. Inr str)\<rparr>
           (\<lambda>u. u = []) e' = Inr s' \<and>
         ComponentSignal_eq s'
           \<lparr>mUuid = ''6f28c6d4'', mName_signal = ''VCC'', mRole = ''power'',
            mForcedNetName = ''VCC'', mIsRequired = True, mIsNegated = False,
            mIsClock = False\<rparr>)"
proof -
  let ?s = "\<lparr>mUuid = ''6f28c6d4'', mName_signal = ''VCC'', mRole = ''power'',
      mForcedNetName = ''VCC'', mIsRequired = True, mIsNegated = False, mIsClock = False\<rparr>"
  let ?U = "\<lparr>defaultConstructed = [], serializeToString = (\<lambda>u :: string. u),
      deserializeFromString = (\<lambda>str. Inr str :: exception + string)\<rparr>"
  let ?R = "\<lparr>defaultConstructed = ''passive'', serializeToString = (\<lambda>r :: string. r),
      deserializeFromString = (\<lambda>str. Inr str :: exception + string)\<rparr>"
  have 1: "\<not> (\<lambda>u. u = []) (mUuid ?s)" by simp
  have 2: "mName_signal ?s \<noteq> []" by simp
  have 3: "mChilds (DomElement_new ''signal'' []) = []"
    by (simp add: DomElement_new_def)
  have 4: "serializeToString ?U (mUuid ?s) \<noteq> []" by simp
  have 5: "deserializeFromString ?U (serializeToString ?U (mUuid ?s)) = Inr (mUuid ?s)"
    by simp
  have 6: "serializeToString ?R (mRole ?s) \<noteq> []" by simp
  have 7: "deserializeFromString ?R (serializeToString ?R (mRole ?s)) = Inr (mRole ?s)"
    by simp
  from serialize_construct_roundtrip [of "\<lambda>u. u = []" ?s, OF 1 2 3 4 5 6 7] 2 3
  show ?thesis by blast
qed

section \<open>The time of the last modification\<close>

text \<open>
  C10: \<open>setLastModified\<close> leaves the whole \<open>ProjectMetadata\<close> as it is, for every
  date-time; the time of the last modification itself keeps its value.
\<close>

theorem setLastModified_noop:
  "setLastModified m newLastModified = m
   \<and> mLastModified (setLastModified m newLastModified) = mLastModified m"
  by (simp add: setLastModified_def)

end
